theory Spec2Isabelle
  imports Main "HOL-Library.Word" "HOL-Library.AList"
begin

section \<open>Python values: exceptions, bytes, paths\<close>

text \<open>
  Every \<^verbatim>\<open>raise\<close> of the program and of the library calls it makes is a value.
  \<open>WaveError\<close> stands for what \<^verbatim>\<open>wave.open\<close> raises on a file that is not a readable
  RIFF/WAVE container (\<^verbatim>\<open>wave.Error\<close>, \<^verbatim>\<open>EOFError\<close>) and for the \<^verbatim>\<open>wave.Error\<close> of
  the writer's setters; \<open>OSError\<close> stands for the operating-system errors other than
  \<^verbatim>\<open>FileNotFoundError\<close> (a directory where a file is expected).
\<close>

datatype exc =
    CalledProcessError int
  | FileNotFoundError
  | OSError
  | WaveError
  | ValueError
  | OverflowError
  | SystemExit int

datatype 'a res = Ok 'a | Raise exc

type_synonym byte = "8 word"

text \<open>A path is the list of its parts, as \<^verbatim>\<open>Path.parts\<close> gives them.\<close>

type_synonym path = "string list"

section \<open>The float arithmetic of \<^verbatim>\<open>int(framerate * abs(delay_ms) / 1000.0)\<close>\<close>

text \<open>
  The product \<^verbatim>\<open>framerate * abs(delay_ms)\<close> is an exact Python integer. Dividing it by
  the float \<^verbatim>\<open>1000.0\<close> first converts it to an IEEE 754 binary64 value (round to
  nearest, ties to even, 53 significant bits; \<^verbatim>\<open>OverflowError\<close> when the rounded value
  does not fit), then divides (correctly rounded), and \<^verbatim>\<open>int\<close> truncates. All values
  are non-negative, so they are modelled by natural numbers and exact quotients.
\<close>

text \<open>\<^verbatim>\<open>int.bit_length\<close>: the number of binary digits of a non-negative integer.\<close>

function bit_length :: "nat \<Rightarrow> nat" where
  "bit_length n = (if n = 0 then 0 else Suc (bit_length (n div 2)))"
  by pat_completeness auto
termination
  by (relation "measure id") auto

declare bit_length.simps [simp del]

definition round_half_even :: "nat \<Rightarrow> nat \<Rightarrow> nat" where
  "round_half_even n d =
     (let q = n div d; r = n mod d
      in if 2 * r < d then q
         else if d < 2 * r then q + 1
         else if even q then q else q + 1)"

text \<open>The binary64 value of a non-negative integer; \<open>None\<close> is \<^verbatim>\<open>OverflowError\<close>.\<close>

definition float_of_int :: "nat \<Rightarrow> nat option" where
  "float_of_int x =
     (if x < 2 ^ 53 then Some x
      else let e = bit_length x - 53;
               v = round_half_even x (2 ^ e) * 2 ^ e
           in if 2 ^ 1024 \<le> v then None else Some v)"

text \<open>
  The binary exponent \<open>e\<close> of a positive quotient \<open>d / den\<close>:
  \<open>2 ^ e \<le> d / den < 2 ^ (e + 1)\<close>.
\<close>

definition quotient_exponent :: "nat \<Rightarrow> nat \<Rightarrow> int" where
  "quotient_exponent d den =
     (let a = bit_length d; b = bit_length den
      in if den * 2 ^ a \<le> d * 2 ^ b then int a - int b else int a - int b - 1)"

text \<open>
  \<^verbatim>\<open>int(d / den)\<close> for binary64 values \<open>d\<close> and \<open>den\<close> that are whole numbers: the
  quotient is rounded to 53 significant bits (a multiple of \<open>2 ^ (e - 52)\<close>), then
  truncated.
\<close>

definition trunc_float_div :: "nat \<Rightarrow> nat \<Rightarrow> nat" where
  "trunc_float_div d den =
     (if d = 0 then 0
      else let e = quotient_exponent d den
           in if e \<le> 52
              then round_half_even (d * 2 ^ nat (52 - e)) den div 2 ^ nat (52 - e)
              else round_half_even d (den * 2 ^ nat (e - 52)) * 2 ^ nat (e - 52))"

text \<open>Line 25 of the source. \<open>None\<close> is the \<^verbatim>\<open>OverflowError\<close> of the conversion.\<close>

definition offset_frames :: "nat \<Rightarrow> int \<Rightarrow> nat option" where
  "offset_frames framerate delay_ms =
     (case float_of_int (framerate * nat \<bar>delay_ms\<bar>) of
        None \<Rightarrow> None
      | Some d \<Rightarrow> Some (trunc_float_div d 1000))"

section \<open>The file system and the PCM container\<close>

text \<open>
  What \<^verbatim>\<open>wave.open(..., 'rb')\<close> exposes of a PCM container: the three format fields
  of its header and the bytes of its data chunk. The reader reports the compression
  tag \<^verbatim>\<open>'NONE'\<close> and the name \<^verbatim>\<open>'not compressed'\<close> for every container it opens.
  The 32-bit length fields of the container and the memory of the machine are not
  modelled: payloads are byte lists of any length.
\<close>

record wav =
  nchannels :: nat
  sampwidth :: nat
  framerate :: nat
  frames :: "byte list"

datatype content = Wav wav | Blob "byte list"

datatype node = Dir | File content

text \<open>
  The directory tree is an association list from paths to nodes; the first entry of a
  path is the one that counts.
\<close>

type_synonym fs = "(path \<times> node) list"

definition lookup :: "fs \<Rightarrow> path \<Rightarrow> node option" where
  "lookup t p = map_of t p"

definition exists :: "fs \<Rightarrow> path \<Rightarrow> bool" where
  "exists t p = (lookup t p \<noteq> None)"

definition write_node :: "path \<Rightarrow> node \<Rightarrow> fs \<Rightarrow> fs" where
  "write_node p n t = AList.update p n t"

definition remove_node :: "path \<Rightarrow> fs \<Rightarrow> fs" where
  "remove_node p t = AList.delete p t"

definition getnframes :: "wav \<Rightarrow> nat" where
  "getnframes w = length (frames w) div (nchannels w * sampwidth w)"

definition getcomptype :: "wav \<Rightarrow> string" where
  "getcomptype w = ''NONE''"

definition getcompname :: "wav \<Rightarrow> string" where
  "getcompname w = ''not compressed''"

text \<open>\<^verbatim>\<open>setpos(pos)\<close> followed by \<^verbatim>\<open>readframes(n)\<close>: at most \<open>n\<close> frames from frame \<open>pos\<close>.\<close>

definition readframes :: "wav \<Rightarrow> nat \<Rightarrow> nat \<Rightarrow> byte list" where
  "readframes w pos n =
     take (n * (nchannels w * sampwidth w))
          (drop (pos * (nchannels w * sampwidth w)) (frames w))"

text \<open>
  \<^verbatim>\<open>wave.open(path, 'rb')\<close>: the reader refuses a header with no channel or with a
  sample width of zero.
\<close>

definition wave_open_rb :: "fs \<Rightarrow> path \<Rightarrow> wav res" where
  "wave_open_rb t p =
     (case lookup t p of
        None \<Rightarrow> Raise FileNotFoundError
      | Some Dir \<Rightarrow> Raise OSError
      | Some (File (Blob b)) \<Rightarrow> Raise WaveError
      | Some (File (Wav w)) \<Rightarrow>
          if nchannels w = 0 \<or> sampwidth w = 0 then Raise WaveError else Ok w)"

text \<open>
  The second \<^verbatim>\<open>with\<close> block of \<^verbatim>\<open>apply_offset\<close>: \<^verbatim>\<open>wave.open(path, 'wb')\<close> creates or
  truncates the file at once; the setters raise \<^verbatim>\<open>wave.Error\<close> on a channel count
  below 1, a sample width outside 1..4, a frame rate below 1 and a compression tag
  other than \<^verbatim>\<open>'NONE'\<close>, and the file then stays behind empty; \<^verbatim>\<open>writeframes\<close> writes
  the header and the payload.
\<close>

definition wave_write ::
  "path \<Rightarrow> nat \<Rightarrow> nat \<Rightarrow> nat \<Rightarrow> string \<Rightarrow> string \<Rightarrow> byte list \<Rightarrow> fs \<Rightarrow> unit res \<times> fs" where
  "wave_write p channels width rate comptype compname audio_data t =
     (if lookup t p = Some Dir then (Raise OSError, t)
      else let t1 = write_node p (File (Blob [])) t
           in if channels < 1 then (Raise WaveError, t1)
              else if width < 1 \<or> 4 < width then (Raise WaveError, t1)
              else if rate < 1 then (Raise WaveError, t1)
              else if comptype \<noteq> ''NONE'' then (Raise WaveError, t1)
              else (Ok (),
                    write_node p
                      (File (Wav \<lparr>nchannels = channels, sampwidth = width,
                                  framerate = rate, frames = audio_data\<rparr>)) t))"

section \<open>\<^verbatim>\<open>apply_offset\<close>\<close>

definition apply_offset :: "path \<Rightarrow> path \<Rightarrow> int \<Rightarrow> fs \<Rightarrow> unit res \<times> fs" where
  "apply_offset input_wav output_wav delay_ms t =
     (case wave_open_rb t input_wav of
        Raise e \<Rightarrow> (Raise e, t)
      | Ok infile \<Rightarrow>
          let channels = nchannels infile;
              width = sampwidth infile;
              rate = framerate infile;
              total_frames = getnframes infile;
              comptype = getcomptype infile;
              compname = getcompname infile
          in (case offset_frames rate delay_ms of
                None \<Rightarrow> (Raise OverflowError, t)
              | Some off \<Rightarrow>
                  (case (if delay_ms < 0
                         then (if total_frames \<le> off then Raise ValueError
                               else Ok (readframes infile off (total_frames - off)))
                         else if 0 < delay_ms
                         then Ok (replicate (off * channels * width) (0 :: byte)
                                  @ readframes infile 0 total_frames)
                         else Ok (readframes infile 0 total_frames)) of
                     Raise e \<Rightarrow> (Raise e, t)
                   | Ok audio_data \<Rightarrow>
                       wave_write output_wav channels width rate comptype compname
                         audio_data t)))"

section \<open>\<^verbatim>\<open>gather_vgs_files\<close>\<close>

text \<open>
  Strings are lists of 8-bit characters. On them \<^verbatim>\<open>str.lower\<close> changes the letters
  \<^verbatim>\<open>A\<close> to \<^verbatim>\<open>Z\<close> only, as far as the comparisons with ASCII literals made here can
  tell, and \<^verbatim>\<open>\d\<close> matches the digits \<^verbatim>\<open>0\<close> to \<^verbatim>\<open>9\<close> only.
\<close>

definition lower_char :: "char \<Rightarrow> char" where
  "lower_char c =
     (case map_of (zip ''ABCDEFGHIJKLMNOPQRSTUVWXYZ'' ''abcdefghijklmnopqrstuvwxyz'') c of
        Some l \<Rightarrow> l
      | None \<Rightarrow> c)"

definition lower :: "string \<Rightarrow> string" where
  "lower s = map lower_char s"

definition isdigit :: "char \<Rightarrow> bool" where
  "isdigit c = (c \<in> set ''0123456789'')"

text \<open>\<^verbatim>\<open>str.rfind\<close>: the index of the last occurrence, \<open>None\<close> for Python's \<open>-1\<close>.\<close>

fun rfind :: "'a \<Rightarrow> 'a list \<Rightarrow> nat option" where
  "rfind c [] = None"
| "rfind c (x # xs) =
     (case rfind c xs of
        Some i \<Rightarrow> Some (Suc i)
      | None \<Rightarrow> if x = c then Some 0 else None)"

text \<open>\<^verbatim>\<open>Path.name\<close> and \<^verbatim>\<open>Path.stem\<close>: the last part, and the last part without its suffix.\<close>

definition name :: "path \<Rightarrow> string" where
  "name p = (if p = [] then [] else last p)"

definition stem :: "path \<Rightarrow> string" where
  "stem p =
     (case rfind (CHR ''.'') (name p) of
        Some i \<Rightarrow> if 0 < i \<and> i + 1 < length (name p) then take i (name p) else name p
      | None \<Rightarrow> name p)"

text \<open>
  \<^verbatim>\<open>re.search(r'_p\d{2}$', s)\<close>: the pattern is tried at every position from the left;
  \<^verbatim>\<open>$\<close> matches at the end of the string and just before a newline that ends the string.
\<close>

fun match_here :: "string \<Rightarrow> bool" where
  "match_here (c1 # c2 # c3 # c4 # rest) =
     (c1 = CHR ''_'' \<and> c2 = CHR ''p'' \<and> isdigit c3 \<and> isdigit c4 \<and>
      (rest = [] \<or> rest = [CHR 0x0A]))"
| "match_here s = False"

fun re_search :: "string \<Rightarrow> bool" where
  "re_search [] = match_here []"
| "re_search (c # s) = (match_here (c # s) \<or> re_search s)"

text \<open>
  \<^verbatim>\<open>root_dir.rglob(pattern)\<close> for a pattern \<^verbatim>\<open>*suffix\<close>: the entries below the root whose
  name ends with the suffix, in the order of the tree (case-sensitive, as on POSIX).
\<close>

definition is_below :: "path \<Rightarrow> path \<Rightarrow> bool" where
  "is_below root p = (length root < length p \<and> take (length root) p = root)"

definition ends_with :: "string \<Rightarrow> string \<Rightarrow> bool" where
  "ends_with suf s = (length suf \<le> length s \<and> drop (length s - length suf) s = suf)"

definition rglob_suffix :: "fs \<Rightarrow> path \<Rightarrow> string \<Rightarrow> path list" where
  "rglob_suffix t root suf =
     filter (\<lambda>p. is_below root p \<and> ends_with suf (name p)) (remdups (map fst t))"

text \<open>The loop of \<^verbatim>\<open>gather_vgs_files\<close>, one \<^verbatim>\<open>continue\<close> per branch.\<close>

fun gather_loop :: "path list \<Rightarrow> path list \<Rightarrow> path list" where
  "gather_loop [] filtered = filtered"
| "gather_loop (vgs_path # all_vgs) filtered =
     (let parts_lower = map lower vgs_path;
          stem_lower = lower (stem vgs_path)
      in if ''tutorial'' \<in> set parts_lower \<or> ''sfx'' \<in> set parts_lower
         then gather_loop all_vgs filtered
         else if ''songs'' \<notin> set parts_lower
         then gather_loop all_vgs filtered
         else if re_search stem_lower
         then gather_loop all_vgs filtered
         else gather_loop all_vgs (filtered @ [vgs_path]))"

definition gather_vgs_files :: "fs \<Rightarrow> path \<Rightarrow> path list" where
  "gather_vgs_files t root_dir = gather_loop (rglob_suffix t root_dir ''.vgs'') []"





section \<open>State, printing, exceptions and external processes\<close>

text \<open>
  An argument of a command line is a literal, a path (\<^verbatim>\<open>str(path)\<close>) or a literal
  joined to a path (\<^verbatim>\<open>f"-o{path}"\<close>).
\<close>

datatype arg = S string | P path | SP string path

text \<open>The lines the program prints, one constructor per \<^verbatim>\<open>print\<close> call of the source.\<close>

datatype msg =
    No_eligible path
  | Processing path
  | This_will_take_time
  | Do_not_close
  | Converting_to_wav
  | Applying_delay int
  | Converting_back
  | Replacing_original
  | Error_msg exc
  | Extracting_from path path
  | Skipping_repack path
  | Repacking_from path path
  | Warn_7z_not_found path
  | Detected_iso string
  | Extracting_contents
  | Extraction_failed path int
  | Unexpected_extract_error path exc
  | Moved_iso path
  | Main_missing path
  | Banner_title
  | Banner_negative
  | Banner_positive
  | Invalid_delay
  | Skipping_all
  | Extracting_ark path path
  | Processing_in_ark
  | Repacking_banner
  | Processing_main
  | Done

text \<open>
  The state of a run: the directory tree, the command lines handed to
  \<^verbatim>\<open>subprocess.run\<close> so far, and the lines printed so far.
\<close>

record state =
  files :: fs
  calls :: "arg list list"
  printed :: "msg list"

definition print :: "msg \<Rightarrow> state \<Rightarrow> unit res \<times> state" where
  "print m st = (Ok (), st\<lparr>printed := printed st @ [m]\<rparr>)"

definition raise :: "exc \<Rightarrow> state \<Rightarrow> unit res \<times> state" where
  "raise e st = (Raise e, st)"

text \<open>One statement after another: the second runs only when the first does not raise.\<close>

definition then_run ::
  "(state \<Rightarrow> unit res \<times> state) \<Rightarrow> (state \<Rightarrow> unit res \<times> state) \<Rightarrow> state \<Rightarrow> unit res \<times> state" where
  "then_run f g st = (case f st of (Ok u, st') \<Rightarrow> g st' | (Raise e, st') \<Rightarrow> (Raise e, st'))"

text \<open>\<^verbatim>\<open>for x in xs: body\<close>; a \<^verbatim>\<open>continue\<close> is a body that returns early.\<close>

fun for_each ::
  "('a \<Rightarrow> state \<Rightarrow> unit res \<times> state) \<Rightarrow> 'a list \<Rightarrow> state \<Rightarrow> unit res \<times> state" where
  "for_each body [] st = (Ok (), st)"
| "for_each body (x # xs) st =
     (case body x st of
        (Ok u, st') \<Rightarrow> for_each body xs st'
      | (Raise e, st') \<Rightarrow> (Raise e, st'))"

text \<open>\<^verbatim>\<open>SystemExit\<close> is not an \<^verbatim>\<open>Exception\<close>; every other exception of the model is.\<close>

definition is_Exception :: "exc \<Rightarrow> bool" where
  "is_Exception e = (case e of SystemExit n \<Rightarrow> False | _ \<Rightarrow> True)"

definition try_except ::
  "(state \<Rightarrow> unit res \<times> state) \<Rightarrow> (exc \<Rightarrow> state \<Rightarrow> unit res \<times> state) \<Rightarrow>
   state \<Rightarrow> unit res \<times> state" where
  "try_except body handler st =
     (case body st of
        (Ok u, st') \<Rightarrow> (Ok u, st')
      | (Raise e, st') \<Rightarrow> if is_Exception e then handler e st' else (Raise e, st'))"

definition try_finally ::
  "(state \<Rightarrow> unit res \<times> state) \<Rightarrow> (state \<Rightarrow> unit res \<times> state) \<Rightarrow>
   state \<Rightarrow> unit res \<times> state" where
  "try_finally body final st =
     (case body st of
        (r, st') \<Rightarrow>
          (case final st' of
             (Ok u, st'') \<Rightarrow> (r, st'')
           | (Raise e, st'') \<Rightarrow> (Raise e, st'')))"

definition on_files :: "(fs \<Rightarrow> unit res \<times> fs) \<Rightarrow> state \<Rightarrow> unit res \<times> state" where
  "on_files f st = (case f (files st) of (r, t') \<Rightarrow> (r, st\<lparr>files := t'\<rparr>))"

text \<open>
  \<^verbatim>\<open>subprocess.run(argv, check=True)\<close>. The command line is recorded; a missing
  executable raises \<^verbatim>\<open>FileNotFoundError\<close> before anything runs; otherwise the process
  does to the tree what \<open>behaviour\<close> says and a non-zero exit status raises
  \<^verbatim>\<open>CalledProcessError\<close>.
\<close>

definition subprocess_run ::
  "arg list \<Rightarrow> (fs \<Rightarrow> int \<times> fs) \<Rightarrow> state \<Rightarrow> unit res \<times> state" where
  "subprocess_run argv behaviour st =
     (let st1 = st\<lparr>calls := calls st @ [argv]\<rparr>
      in case argv of
           P exe # args \<Rightarrow>
             (case lookup (files st) exe of
                None \<Rightarrow> (Raise FileNotFoundError, st1)
              | Some Dir \<Rightarrow> (Raise OSError, st1)
              | Some (File c) \<Rightarrow>
                  (case behaviour (files st) of
                     (rc, t') \<Rightarrow>
                       (if rc \<noteq> 0 then Raise (CalledProcessError rc) else Ok (),
                        st1\<lparr>files := t'\<rparr>)))
         | _ \<Rightarrow> (Raise FileNotFoundError, st1))"

text \<open>
  The external services. The codec is taken to write nothing but its destination
  file: \<open>codec t src dst\<close> is its exit status and what it wrote there, if anything.
  The archive service and the decompression service may change the tree in any way.
  \<open>build_iso\<close> is the disc-authoring step, which is outside the resync pipeline.
\<close>

record tools =
  codec :: "fs \<Rightarrow> path \<Rightarrow> path \<Rightarrow> int \<times> content option"
  archiver :: "fs \<Rightarrow> arg list \<Rightarrow> int \<times> fs"
  unzipper :: "fs \<Rightarrow> arg list \<Rightarrow> int \<times> fs"
  build_iso :: "state \<Rightarrow> unit res \<times> state"

definition run_codec :: "tools \<Rightarrow> path \<Rightarrow> path \<Rightarrow> fs \<Rightarrow> int \<times> fs" where
  "run_codec svc src dst t =
     (case codec svc t src dst of
        (rc, None) \<Rightarrow> (rc, t)
      | (rc, Some c) \<Rightarrow> (rc, write_node dst (File c) t))"

section \<open>File operations\<close>

definition parent :: "path \<Rightarrow> path" where
  "parent p = butlast p"

definition with_name :: "path \<Rightarrow> string \<Rightarrow> path" where
  "with_name p n = butlast p @ [n]"

text \<open>
  \<^verbatim>\<open>Path.unlink\<close>, \<^verbatim>\<open>os.replace\<close> (a directory as source is refused) and \<^verbatim>\<open>Path.rename\<close>,
  which replaces its target as \<^verbatim>\<open>os.replace\<close> does (POSIX).
\<close>

definition unlink :: "path \<Rightarrow> fs \<Rightarrow> unit res \<times> fs" where
  "unlink p t =
     (case lookup t p of
        None \<Rightarrow> (Raise FileNotFoundError, t)
      | Some Dir \<Rightarrow> (Raise OSError, t)
      | Some (File c) \<Rightarrow> (Ok (), remove_node p t))"

definition os_replace :: "path \<Rightarrow> path \<Rightarrow> fs \<Rightarrow> unit res \<times> fs" where
  "os_replace src dst t =
     (case lookup t src of
        None \<Rightarrow> (Raise FileNotFoundError, t)
      | Some Dir \<Rightarrow> (Raise OSError, t)
      | Some (File c) \<Rightarrow>
          if lookup t dst = Some Dir then (Raise OSError, t)
          else (Ok (), write_node dst (File c) (remove_node src t)))"

definition path_rename :: "path \<Rightarrow> path \<Rightarrow> fs \<Rightarrow> unit res \<times> fs" where
  "path_rename src dst t = os_replace src dst t"

text \<open>\<^verbatim>\<open>if p.exists(): p.unlink()\<close>\<close>

definition unlink_if_exists :: "path \<Rightarrow> state \<Rightarrow> unit res \<times> state" where
  "unlink_if_exists p st = (if exists (files st) p then on_files (unlink p) st else (Ok (), st))"

text \<open>\<^verbatim>\<open>Path.mkdir(exist_ok=True)\<close>: a file of that name is an error.\<close>

definition mkdir :: "path \<Rightarrow> fs \<Rightarrow> unit res \<times> fs" where
  "mkdir p t =
     (case lookup t p of
        None \<Rightarrow> (Ok (), write_node p Dir t)
      | Some Dir \<Rightarrow> (Ok (), t)
      | Some (File c) \<Rightarrow> (Raise OSError, t))"

text \<open>\<^verbatim>\<open>shutil.rmtree(p, ignore_errors=True)\<close>: the entry and everything below it.\<close>

definition rmtree :: "path \<Rightarrow> fs \<Rightarrow> unit res \<times> fs" where
  "rmtree p t = (Ok (), filter (\<lambda>(q, n). \<not> (q = p \<or> is_below p q)) t)"

text \<open>\<^verbatim>\<open>rglob\<close> by exact name, and \<^verbatim>\<open>glob\<close> over the direct children of a folder.\<close>

definition rglob_name :: "fs \<Rightarrow> path \<Rightarrow> string \<Rightarrow> path list" where
  "rglob_name t root n =
     filter (\<lambda>p. is_below root p \<and> name p = n) (remdups (map fst t))"

definition glob_children :: "fs \<Rightarrow> path \<Rightarrow> (string \<Rightarrow> bool) \<Rightarrow> path list" where
  "glob_children t folder matches =
     filter (\<lambda>p. p \<noteq> [] \<and> parent p = folder \<and> matches (name p)) (remdups (map fst t))"

section \<open>\<^verbatim>\<open>process_vgs_files\<close>\<close>

definition temp_wav :: "path \<Rightarrow> path" where
  "temp_wav vgs_path = with_name vgs_path (stem vgs_path @ ''_temp.wav'')"

definition processed_wav :: "path \<Rightarrow> path" where
  "processed_wav vgs_path = with_name vgs_path (stem vgs_path @ ''_temp_processed.wav'')"

definition temp_vgs :: "path \<Rightarrow> path" where
  "temp_vgs vgs_path = with_name vgs_path (stem vgs_path @ ''_temp.vgs'')"

text \<open>Lines 97 to 110: conversion to PCM, the offset transform, conversion back.\<close>

definition convert_steps :: "tools \<Rightarrow> path \<Rightarrow> int \<Rightarrow> path \<Rightarrow> state \<Rightarrow> unit res \<times> state" where
  "convert_steps svc rockaudio delay_ms vgs_path =
     then_run (print Converting_to_wav)
    (then_run (subprocess_run [P rockaudio, S ''convert'', P vgs_path, P (temp_wav vgs_path)]
                 (run_codec svc vgs_path (temp_wav vgs_path)))
    (then_run (print (Applying_delay delay_ms))
    (then_run (on_files (apply_offset (temp_wav vgs_path) (processed_wav vgs_path) delay_ms))
    (then_run (print Converting_back)
              (subprocess_run
                 [P rockaudio, S ''convert'', P (processed_wav vgs_path), P (temp_vgs vgs_path)]
                 (run_codec svc (processed_wav vgs_path) (temp_vgs vgs_path)))))))"

text \<open>Lines 112 and 113.\<close>

definition replace_original :: "path \<Rightarrow> state \<Rightarrow> unit res \<times> state" where
  "replace_original vgs_path =
     then_run (print Replacing_original) (on_files (os_replace (temp_vgs vgs_path) vgs_path))"

text \<open>The body of the loop of \<^verbatim>\<open>process_vgs_files\<close>, lines 88 to 120.\<close>

definition process_one :: "tools \<Rightarrow> path \<Rightarrow> int \<Rightarrow> path \<Rightarrow> state \<Rightarrow> unit res \<times> state" where
  "process_one svc rockaudio delay_ms vgs_path =
     then_run (print (Processing vgs_path))
    (then_run (print This_will_take_time)
    (then_run (print Do_not_close)
      (try_finally
         (try_except
            (then_run (convert_steps svc rockaudio delay_ms vgs_path)
                      (replace_original vgs_path))
            (\<lambda>e. print (Error_msg e)))
         (then_run (unlink_if_exists (temp_wav vgs_path))
                   (unlink_if_exists (processed_wav vgs_path))))))"

definition process_vgs_files :: "tools \<Rightarrow> path \<Rightarrow> int \<Rightarrow> path \<Rightarrow> state \<Rightarrow> unit res \<times> state" where
  "process_vgs_files svc root_dir delay_ms rockaudio st =
     (let vgs_files = gather_vgs_files (files st) root_dir
      in if vgs_files = [] then print (No_eligible root_dir) st
         else for_each (process_one svc rockaudio delay_ms) vgs_files st)"

section \<open>\<^verbatim>\<open>extract_ark\<close> and \<^verbatim>\<open>repack_ark\<close>\<close>

definition ark2dir :: "path \<Rightarrow> path \<Rightarrow> path \<Rightarrow> arg list" where
  "ark2dir arkhelper hdr_path temp_dir =
     [P arkhelper, S ''ark2dir'', P hdr_path, P temp_dir, S ''-a'']"

definition dir2ark :: "path \<Rightarrow> path \<Rightarrow> path \<Rightarrow> arg list" where
  "dir2ark arkhelper temp_dir hdr_folder =
     [P arkhelper, S ''dir2ark'', P temp_dir, P hdr_folder,
      S ''-n'', S ''MAIN'', S ''-s'', S ''4073741823'']"

definition touch_marker :: "path \<Rightarrow> state \<Rightarrow> unit res \<times> state" where
  "touch_marker marker_file st =
     (if \<not> exists (files st) marker_file
      then (Ok (), st\<lparr>files := write_node marker_file (File (Blob [])) (files st)\<rparr>)
      else (Ok (), st))"

definition extract_ark :: "tools \<Rightarrow> path \<Rightarrow> path \<Rightarrow> path \<Rightarrow> state \<Rightarrow> unit res \<times> state" where
  "extract_ark svc hdr_path arkhelper temp_dir =
     then_run (print (Extracting_from hdr_path temp_dir))
    (then_run (on_files (mkdir temp_dir))
    (then_run (subprocess_run (ark2dir arkhelper hdr_path temp_dir)
                 (\<lambda>t. archiver svc t (ark2dir arkhelper hdr_path temp_dir)))
              (touch_marker (temp_dir @ [''ark.txt'']))))"

definition repack_ark :: "tools \<Rightarrow> path \<Rightarrow> path \<Rightarrow> path \<Rightarrow> state \<Rightarrow> unit res \<times> state" where
  "repack_ark svc temp_dir hdr_folder arkhelper st =
     (if \<not> exists (files st) (temp_dir @ [''ark.txt''])
      then print (Skipping_repack temp_dir) st
      else then_run (print (Repacking_from temp_dir hdr_folder))
                    (subprocess_run (dir2ark arkhelper temp_dir hdr_folder)
                       (\<lambda>t. archiver svc t (dir2ark arkhelper temp_dir hdr_folder))) st)"

section \<open>\<^verbatim>\<open>extract_any_isos\<close>\<close>

definition sevenz_x :: "path \<Rightarrow> path \<Rightarrow> path \<Rightarrow> arg list" where
  "sevenz_x seven_z iso_file main_folder =
     [P seven_z, S ''x'', P iso_file, SP ''-o'' main_folder, S ''-y'']"

text \<open>
  The body of the loop over the disc images: the \<^verbatim>\<open>try\<close> statement holds the call of
  the decompression service only, both \<^verbatim>\<open>except\<close> clauses print and \<^verbatim>\<open>continue\<close>, and
  the image is moved after the \<^verbatim>\<open>try\<close> statement.
\<close>

definition extract_one_iso :: "tools \<Rightarrow> path \<Rightarrow> path \<Rightarrow> path \<Rightarrow> state \<Rightarrow> unit res \<times> state" where
  "extract_one_iso svc main_folder seven_z iso_file st =
     (let processed_folder = main_folder @ [''_processed_original_isos'']
      in if parent iso_file = processed_folder then (Ok (), st)
         else
           then_run (print (Detected_iso (name iso_file)))
          (then_run (print Extracting_contents)
            (\<lambda>st1.
               case subprocess_run (sevenz_x seven_z iso_file main_folder)
                      (\<lambda>t. unzipper svc t (sevenz_x seven_z iso_file main_folder)) st1 of
                 (Raise (CalledProcessError rc), st') \<Rightarrow>
                    print (Extraction_failed iso_file rc) st'
               | (Raise e, st') \<Rightarrow>
                    if is_Exception e then print (Unexpected_extract_error iso_file e) st'
                    else (Raise e, st')
               | (Ok u, st') \<Rightarrow>
                    then_run (on_files (path_rename iso_file (processed_folder @ [name iso_file])))
                             (print (Moved_iso (processed_folder @ [name iso_file]))) st')) st)"

definition extract_any_isos :: "tools \<Rightarrow> path \<Rightarrow> path \<Rightarrow> state \<Rightarrow> unit res \<times> state" where
  "extract_any_isos svc main_folder seven_z st =
     (if \<not> exists (files st) seven_z then print (Warn_7z_not_found seven_z) st
      else then_run (on_files (mkdir (main_folder @ [''_processed_original_isos''])))
             (\<lambda>st'. for_each (extract_one_iso svc main_folder seven_z)
                      (glob_children (files st') main_folder (ends_with ''.iso'')) st') st)"

section \<open>\<^verbatim>\<open>main\<close>\<close>

text \<open>
  What the operator types at the prompt for the delay, after \<^verbatim>\<open>strip()\<close>: nothing, a
  text that \<^verbatim>\<open>int\<close> parses, or any other text.
\<close>

datatype typed = Nothing | Number int | Not_a_number

record config =
  script_dir :: path
  delay_arg :: "int option"
  skip :: bool
  typed_delay :: typed

text \<open>The body of the loop over the archive units, lines 411 to 425.\<close>

definition process_unit :: "tools \<Rightarrow> path \<Rightarrow> path \<Rightarrow> int \<Rightarrow> path \<Rightarrow> state \<Rightarrow> unit res \<times> state" where
  "process_unit svc arkhelper rockaudio delay_ms hdr_path st =
     (let hdr_folder = parent hdr_path;
          ark_candidates =
            glob_children (files st) hdr_folder
              (\<lambda>n. 8 \<le> length n \<and> take 4 n = ''MAIN'' \<and> ends_with ''.ARK'' n)
      in if ark_candidates = [] then (Ok (), st)
         else
           (let temp_out = hdr_folder @ [''temp_out'']
            in then_run (print (Extracting_ark hdr_path hdr_folder))
              (then_run (extract_ark svc hdr_path arkhelper temp_out)
              (then_run (print Processing_in_ark)
              (then_run (process_vgs_files svc temp_out delay_ms rockaudio)
              (then_run (print Repacking_banner)
              (then_run (repack_ark svc temp_out hdr_folder arkhelper)
                        (on_files (rmtree temp_out))))))) st))"

text \<open>Lines 386 to 400: the delay comes from the command line or from the prompt.\<close>

definition read_delay :: "config \<Rightarrow> state \<Rightarrow> int res \<times> state" where
  "read_delay cfg st =
     (case delay_arg cfg of
        Some d \<Rightarrow> (Ok d, st)
      | None \<Rightarrow>
          (let st1 = st\<lparr>printed := printed st @ [Banner_title, Banner_negative, Banner_positive]\<rparr>
           in case typed_delay cfg of
                Nothing \<Rightarrow> (Ok (- 60), st1)
              | Number d \<Rightarrow> (Ok d, st1)
              | Not_a_number \<Rightarrow> (Raise (SystemExit 1), st1\<lparr>printed := printed st1 @ [Invalid_delay]\<rparr>)))"

definition main :: "tools \<Rightarrow> config \<Rightarrow> state \<Rightarrow> unit res \<times> state" where
  "main svc cfg st =
     (let dep_dir = script_dir cfg @ [''z_dependencies''];
          rockaudio = dep_dir @ [''RockAudio.exe''];
          arkhelper = dep_dir @ [''arkhelper.exe''];
          seven_z = dep_dir @ [''7z.exe''];
          root_path = script_dir cfg @ [''main'']
      in if \<not> exists (files st) root_path
         then then_run (print (Main_missing root_path)) (raise (SystemExit 1)) st
         else
           (case read_delay cfg st of
              (Raise e, st1) \<Rightarrow> (Raise e, st1)
            | (Ok delay_ms, st1) \<Rightarrow>
                then_run (extract_any_isos svc root_path seven_z)
                  (if skip cfg
                   then then_run (print Skipping_all)
                       (then_run (build_iso svc) (raise (SystemExit 0)))
                   else (\<lambda>st2.
                     then_run (for_each (process_unit svc arkhelper rockaudio delay_ms)
                                 (rglob_name (files st2) root_path ''MAIN.HDR''))
                    (then_run (print Processing_main)
                    (then_run (process_vgs_files svc root_path delay_ms rockaudio)
                    (then_run (build_iso svc) (print Done)))) st2)) st1))"

section \<open>Working trees\<close>

text \<open>
  \<open>two_units\<close>: the program in \<^verbatim>\<open>app\<close> with its archive and codec tools, and a working
  root with two archive units \<^verbatim>\<open>A\<close> and \<open>B\<close>. \<open>image_no_arkhelper\<close>: the program with
  its decompression and codec tools but without \<^verbatim>\<open>arkhelper.exe\<close>, and a working root
  with one disc image and one archive unit. \<open>run_args\<close>: a delay of -60 ms given on the
  command line, no skip mode.
\<close>

definition two_units :: state where
  "two_units =
     \<lparr>files =
        [([''app'', ''main''], Dir),
         ([''app'', ''z_dependencies'', ''arkhelper.exe''], File (Blob [])),
         ([''app'', ''z_dependencies'', ''RockAudio.exe''], File (Blob [])),
         ([''app'', ''main'', ''A''], Dir),
         ([''app'', ''main'', ''A'', ''MAIN.HDR''], File (Blob [1])),
         ([''app'', ''main'', ''A'', ''MAIN_0.ARK''], File (Blob [2])),
         ([''app'', ''main'', ''B''], Dir),
         ([''app'', ''main'', ''B'', ''MAIN.HDR''], File (Blob [3])),
         ([''app'', ''main'', ''B'', ''MAIN_0.ARK''], File (Blob [4]))],
      calls = [], printed = []\<rparr>"




definition run_args :: config where
  "run_args = \<lparr>script_dir = [''app''], delay_arg = Some (- 60), skip = False,
                typed_delay = Nothing\<rparr>"

section \<open>Invariants of a run\<close>

text \<open>
  Relations between the state before and the state after a statement, used to follow a
  path of the tree through the statements of a function: \<open>same_at p\<close> says that the
  entry at \<open>p\<close> is the same, \<open>no_new_dir p\<close> that \<open>p\<close> has not become a directory.
  \<open>only_exceptions f\<close> says that \<open>f\<close> raises nothing that \<^verbatim>\<open>except Exception\<close> lets
  through.
\<close>

definition preserves :: "(state \<Rightarrow> state \<Rightarrow> bool) \<Rightarrow> (state \<Rightarrow> unit res \<times> state) \<Rightarrow> bool" where
  "preserves R f = (\<forall>st. R st (snd (f st)))"


definition stable :: "(state \<Rightarrow> state \<Rightarrow> bool) \<Rightarrow> bool" where
  "stable R = ((\<forall>s. R s s) \<and> (\<forall>s t u. R s t \<longrightarrow> R t u \<longrightarrow> R s u))"





section \<open>Scenarios\<close>

text \<open>
  External services for the concrete runs below: in \<open>failing_tools\<close> every service
  exits with status 1 and changes nothing; in \<open>working_tools\<close> every service exits
  with status 0, the codec writing a one-channel, two-byte, 1000 Hz container of three
  frames and the other services changing nothing. The disc-authoring step does nothing.
\<close>

definition failing_tools :: tools where
  "failing_tools =
     \<lparr>codec = (\<lambda>t src dst. (1, None)),
      archiver = (\<lambda>t argv. (1, t)),
      unzipper = (\<lambda>t argv. (1, t)),
      build_iso = (\<lambda>st. (Ok (), st))\<rparr>"


text \<open>
  The notions in which the properties of \<^verbatim>\<open>apply_offset\<close> are stated. A PCM input
  is a container whose format the \<^verbatim>\<open>wave\<close> module both reads and writes: at least
  one channel, samples of 1 to 4 bytes, a frame rate of at least 1. The frames of a
  container are the consecutive blocks of \<open>nchannels * sampwidth\<close> bytes of its
  data chunk, \<open>getnframes\<close> of them.
\<close>

definition pcm_ok :: "wav \<Rightarrow> bool" where
  "pcm_ok w =
     (1 \<le> nchannels w \<and> 1 \<le> sampwidth w \<and> sampwidth w \<le> 4 \<and> 1 \<le> framerate w)"

definition read_wav :: "fs \<Rightarrow> path \<Rightarrow> wav option" where
  "read_wav t p = (case lookup t p of Some (File (Wav w)) \<Rightarrow> Some w | _ \<Rightarrow> None)"

fun chop_frames :: "nat \<Rightarrow> nat \<Rightarrow> 'a list \<Rightarrow> 'a list list" where
  "chop_frames k 0 xs = []"
| "chop_frames k (Suc n) xs = take k xs # chop_frames k n (drop k xs)"

definition frame_list :: "wav \<Rightarrow> byte list list" where
  "frame_list w = chop_frames (nchannels w * sampwidth w) (getnframes w) (frames w)"

definition payload :: "wav \<Rightarrow> byte list" where
  "payload w = take (getnframes w * (nchannels w * sampwidth w)) (frames w)"

definition same_format :: "wav \<Rightarrow> wav \<Rightarrow> bool" where
  "same_format w w' =
     (nchannels w' = nchannels w \<and> sampwidth w' = sampwidth w \<and>
      framerate w' = framerate w \<and> getcomptype w' = getcomptype w \<and>
      getcompname w' = getcompname w)"

section \<open>Properties of the frame count\<close>

lemma rhe_lower: "n div d \<le> round_half_even n d"
  by (simp add: round_half_even_def Let_def)

lemma rhe_upper: "0 < d \<Longrightarrow> 2 * d * round_half_even n d \<le> 2 * n + d"
proof -
  assume d: "0 < d"
  define q where "q = n div d"
  define r where "r = n mod d"
  have n: "n = d * q + r" by (simp add: q_def r_def)
  have "2 * d * (q + 1) \<le> 2 * n + d" if "d \<le> 2 * r"
    using that by (simp add: n algebra_simps)
  moreover have "2 * d * q \<le> 2 * n + d"
    by (simp add: n algebra_simps)
  ultimately show ?thesis
    unfolding round_half_even_def Let_def q_def[symmetric] r_def[symmetric]
    by auto
qed

lemma bit_length_le: "x < 2 ^ k \<Longrightarrow> bit_length x \<le> k"
proof (induction k arbitrary: x)
  case 0 then show ?case by (simp add: bit_length.simps)
next
  case (Suc k)
  have "x div 2 < 2 ^ k" using Suc.prems by auto
  from Suc.IH[OF this] show ?case by (subst bit_length.simps) simp
qed

lemma rhe_scaled_floor:
  assumes p: "512 \<le> (p::nat)"
  shows "round_half_even (x * p) 1000 div p = x div 1000"
proof -
  define q where "q = x div 1000"
  define r where "r = x mod 1000"
  define m where "m = round_half_even (x * p) 1000"
  have x: "x = 1000 * q + r" and r: "r \<le> 999"
    by (simp_all add: q_def r_def) 
  have rp: "r * p \<le> 999 * p"
    using r by (rule mult_le_mono1)
  have xp: "x * p = 1000 * (q * p) + r * p"
    by (simp add: x algebra_simps)
  have "(1000 * (q * p) + r * p) div 1000 \<le> m"
    unfolding m_def xp[symmetric] by (rule rhe_lower)
  then have lo: "q * p \<le> m"
    by simp
  have "2 * 1000 * m \<le> 2 * (x * p) + 1000"
    unfolding m_def by (rule rhe_upper) simp
  then have "2000 * m \<le> 2000 * (q * p) + 2 * (r * p) + 1000"
    by (simp add: xp)
  with rp p have "2000 * m < 2000 * (q * p) + 2000 * p"
    by linarith
  then have hi: "m < (q + 1) * p"
    by (simp add: algebra_simps)
  have "p > 0" using p by simp
  with lo hi have "m div p = q"
    by (metis add.commute div_nat_eqI mult.commute plus_1_eq_Suc)
  then show ?thesis
    by (simp add: m_def q_def)
qed

lemma bit_length_1000: "bit_length 1000 = 10"
  by (simp add: bit_length.simps)

lemma quotient_exponent_small:
  assumes "x < 2 ^ 53"
  shows "quotient_exponent x 1000 \<le> 43"
proof -
  have "bit_length x \<le> 53" using assms by (rule bit_length_le)
  then show ?thesis
    by (simp add: quotient_exponent_def Let_def bit_length_1000)
qed

text \<open>
  Claim C7, as amended. Whenever the exact product \<open>frameRate * |offsetMs|\<close> is below
  \<open>2 ^ 53\<close>, the number of frames that \<^verbatim>\<open>apply_offset\<close> trims or prepends is
  \<open>floor (frameRate * |offsetMs| / 1000)\<close>: the conversion to binary64 is then exact
  and the rounding of the quotient never reaches the next whole number.
\<close>

theorem offset_frames_exact:
  assumes small: "rate * nat \<bar>delay_ms\<bar> < 2 ^ 53"
  shows "offset_frames rate delay_ms = Some (rate * nat \<bar>delay_ms\<bar> div 1000)"
proof -
  define x where "x = rate * nat \<bar>delay_ms\<bar>"
  have x: "x < 2 ^ 53"
    using small by (simp add: x_def)
  then have exact: "float_of_int x = Some x"
    by (simp add: float_of_int_def)
  have "trunc_float_div x 1000 = x div 1000"
  proof (cases "x = 0")
    case True
    then show ?thesis by (simp add: trunc_float_div_def)
  next
    case False
    define e where "e = quotient_exponent x 1000"
    have e: "e \<le> 43"
      unfolding e_def using x by (rule quotient_exponent_small)
    then have "nat (52 - e) \<ge> 9" by simp
    then have "(2::nat) ^ 9 \<le> 2 ^ nat (52 - e)"
      by (rule power_increasing) simp
    then have "512 \<le> (2::nat) ^ nat (52 - e)" by simp
    then have "round_half_even (x * 2 ^ nat (52 - e)) 1000 div 2 ^ nat (52 - e) = x div 1000"
      by (rule rhe_scaled_floor)
    with e False show ?thesis
      by (simp add: trunc_float_div_def Let_def e_def [symmetric])
  qed
  with exact show ?thesis
    by (simp add: offset_frames_def x_def)
qed

lemmas float_eval =
  offset_frames_def float_of_int_def trunc_float_div_def quotient_exponent_def
  round_half_even_def bit_length.simps Let_def

theorem offset_frames_exact_witness:
  "44100 * nat \<bar>- 60\<bar> < (2::nat) ^ 53 \<and> offset_frames 44100 (- 60) = Some 2646"
  using offset_frames_exact [of 44100 "- 60"] by simp

text \<open>
  Claim C7 as stated fails above \<open>2 ^ 53\<close>: at 44100 frames per second and an offset of
  1634164610090 ms the product is a multiple of 1000, the conversion to binary64
  rounds it down, and the code counts one frame fewer than the exact floor.
\<close>

theorem offset_frames_counterexample:
  "offset_frames 44100 1634164610090 = Some 72066659304968 \<and>
   44100 * nat \<bar>1634164610090\<bar> div 1000 = (72066659304969 :: nat)"
  by (simp add: float_eval)

section \<open>Properties of \<^verbatim>\<open>apply_offset\<close>\<close>

lemma lookup_write_node:
  "lookup (write_node p n t) q = (if q = p then Some n else lookup t q)"
  by (simp add: lookup_def write_node_def update_conv')

lemma chop_frames_length: "length (chop_frames k n xs) = n"
  by (induction n arbitrary: xs) auto

lemma chop_frames_take:
  "n * k \<le> m \<Longrightarrow> chop_frames k n (take m xs) = chop_frames k n xs"
proof (induction n arbitrary: xs m)
  case 0 then show ?case by simp
next
  case (Suc n)
  then have "k \<le> m" and "n * k \<le> m - k" by auto
  with Suc.IH[of "m - k" "drop k xs"] show ?case
    by (simp add: drop_take min_absorb1)
qed

lemma chop_frames_drop:
  "chop_frames k n (drop (a * k) xs) = drop a (chop_frames k (a + n) xs)"
proof (induction a arbitrary: xs)
  case 0 then show ?case by simp
next
  case (Suc a)
  have "drop (Suc a * k) xs = drop (a * k) (drop k xs)"
    by (simp add: add.commute)
  then show ?case using Suc.IH[of "drop k xs"] by simp
qed

lemma chop_frames_zeros:
  "chop_frames k (a + n) (replicate (a * k) z @ ys) = replicate a (replicate k z) @ chop_frames k n ys"
proof (induction a)
  case 0 then show ?case by simp
next
  case (Suc a)
  have "replicate (Suc a * k) z = replicate k z @ replicate (a * k) z"
    by (simp add: replicate_add)
  then show ?case using Suc.IH by simp
qed

lemma payload_whole:
  "length (frames w) mod (nchannels w * sampwidth w) = 0 \<Longrightarrow> payload w = frames w"
  by (auto simp: payload_def getnframes_def)

lemma frames_bound: "getnframes w * (nchannels w * sampwidth w) \<le> length (frames w)"
  by (simp add: getnframes_def)

lemma frame_list_payload:
  "chop_frames (nchannels w * sampwidth w) (getnframes w) (payload w) = frame_list w"
  by (simp add: payload_def frame_list_def chop_frames_take)

lemma readframes_all: "readframes w 0 (getnframes w) = payload w"
  by (simp add: readframes_def payload_def)

lemma readframes_from:
  "readframes w off (getnframes w - off) = drop (off * (nchannels w * sampwidth w)) (payload w)"
proof -
  let ?k = "nchannels w * sampwidth w"
  have "(getnframes w - off) * ?k = getnframes w * ?k - off * ?k"
    by (simp add: diff_mult_distrib)
  then show ?thesis
    by (simp add: readframes_def payload_def drop_take)
qed

lemma length_payload: "length (payload w) = getnframes w * (nchannels w * sampwidth w)"
  using frames_bound [of w] by (simp add: payload_def)

lemma getnframes_update:
  "0 < nchannels w * sampwidth w \<Longrightarrow> length xs = n * (nchannels w * sampwidth w) \<Longrightarrow>
   getnframes (w\<lparr>frames := xs\<rparr>) = n"
  by (simp add: getnframes_def)

lemma same_format_update: "same_format w (w\<lparr>frames := xs\<rparr>)"
  by (simp add: same_format_def getcomptype_def getcompname_def)

text \<open>The three payloads the first block of \<^verbatim>\<open>apply_offset\<close> can build.\<close>

lemma frames_same:
  assumes "0 < nchannels w * sampwidth w"
  shows "getnframes (w\<lparr>frames := payload w\<rparr>) = getnframes w"
    and "frame_list (w\<lparr>frames := payload w\<rparr>) = frame_list w"
proof -
  show n: "getnframes (w\<lparr>frames := payload w\<rparr>) = getnframes w"
    using assms by (rule getnframes_update) (rule length_payload)
  show "frame_list (w\<lparr>frames := payload w\<rparr>) = frame_list w"
    unfolding frame_list_def [of "w\<lparr>frames := payload w\<rparr>"] n
    by (simp add: frame_list_payload)
qed

lemma frames_pad:
  assumes pos: "0 < nchannels w * sampwidth w"
  shows "getnframes (w\<lparr>frames := replicate (off * (nchannels w * sampwidth w)) 0 @ payload w\<rparr>)
           = getnframes w + off"
    and "frame_list (w\<lparr>frames := replicate (off * (nchannels w * sampwidth w)) 0 @ payload w\<rparr>)
           = replicate off (replicate (nchannels w * sampwidth w) 0) @ frame_list w"
proof -
  let ?k = "nchannels w * sampwidth w"
  let ?w' = "w\<lparr>frames := replicate (off * ?k) 0 @ payload w\<rparr>"
  have len: "length (replicate (off * ?k) (0 :: byte) @ payload w) = (getnframes w + off) * ?k"
    by (simp add: length_payload add_mult_distrib)
  show n: "getnframes ?w' = getnframes w + off"
    using pos len by (rule getnframes_update)
  show "frame_list ?w' = replicate off (replicate ?k 0) @ frame_list w"
    unfolding frame_list_def [of ?w'] n
    by (simp add: add.commute [of _ off] chop_frames_zeros frame_list_payload)
qed

lemma frames_trim:
  assumes pos: "0 < nchannels w * sampwidth w" and le: "off \<le> getnframes w"
  shows "getnframes (w\<lparr>frames := drop (off * (nchannels w * sampwidth w)) (payload w)\<rparr>)
           = getnframes w - off"
    and "frame_list (w\<lparr>frames := drop (off * (nchannels w * sampwidth w)) (payload w)\<rparr>)
           = drop off (frame_list w)"
proof -
  let ?k = "nchannels w * sampwidth w"
  let ?w' = "w\<lparr>frames := drop (off * ?k) (payload w)\<rparr>"
  have len: "length (drop (off * ?k) (payload w)) = (getnframes w - off) * ?k"
    by (simp add: length_payload diff_mult_distrib)
  show n: "getnframes ?w' = getnframes w - off"
    using pos len by (rule getnframes_update)
  have "chop_frames ?k (getnframes w - off) (drop (off * ?k) (payload w)) =
        drop off (chop_frames ?k (off + (getnframes w - off)) (payload w))"
    by (rule chop_frames_drop)
  also have "\<dots> = drop off (frame_list w)"
    using le by (simp add: frame_list_payload)
  finally show "frame_list ?w' = drop off (frame_list w)"
    unfolding frame_list_def [of ?w'] n by simp
qed

lemma wav_rebuild:
  "\<lparr>nchannels = nchannels w, sampwidth = sampwidth w, framerate = framerate w,
    frames = xs\<rparr> = (w :: wav)\<lparr>frames := xs\<rparr>"
  by (cases w) simp

lemma apply_offset_readable:
  assumes inp: "lookup t inp = Some (File (Wav w))"
    and ok: "pcm_ok w"
    and out: "lookup t out \<noteq> Some Dir"
    and off: "offset_frames (framerate w) d = Some off"
  shows "apply_offset inp out d t =
     (if d < 0 \<and> getnframes w \<le> off then (Raise ValueError, t)
      else (Ok (),
            write_node out
              (File (Wav (w\<lparr>frames :=
                 (if d < 0 then drop (off * (nchannels w * sampwidth w)) (payload w)
                  else if 0 < d
                  then replicate (off * (nchannels w * sampwidth w)) 0 @ payload w
                  else payload w)\<rparr>))) t))"
  using assms
  by (simp add: apply_offset_def wave_open_rb_def wave_write_def pcm_ok_def Let_def
      getcomptype_def readframes_all readframes_from mult.assoc wav_rebuild)

lemma apply_offset_overflow:
  assumes "lookup t inp = Some (File (Wav w))"
    and "pcm_ok w"
    and "offset_frames (framerate w) d = None"
  shows "apply_offset inp out d t = (Raise OverflowError, t)"
  using assms
  by (simp add: apply_offset_def wave_open_rb_def pcm_ok_def Let_def)

lemma read_wav_write_node:
  "read_wav (write_node p (File (Wav w)) t) p = Some w"
  by (simp add: read_wav_def lookup_write_node)





lemma apply_offset_success:
  assumes "fst (apply_offset inp out d t) = Ok ()"
  shows "\<exists>w off. lookup t inp = Some (File (Wav w)) \<and> pcm_ok w \<and> lookup t out \<noteq> Some Dir \<and>
           offset_frames (framerate w) d = Some off \<and> \<not> (d < 0 \<and> getnframes w \<le> off)"
  using assms
  by (auto simp: apply_offset_def wave_open_rb_def wave_write_def pcm_ok_def Let_def
      split: option.splits node.splits content.splits res.splits if_splits)

lemma lookup_apply_offset_other:
  "p \<noteq> out \<Longrightarrow> lookup (snd (apply_offset inp out d t)) p = lookup t p"
  by (auto simp: apply_offset_def wave_write_def Let_def lookup_write_node
      split: option.splits node.splits content.splits res.splits if_splits)

lemma whole_frames_update:
  "length xs = n * (nchannels w * sampwidth w) \<Longrightarrow> 0 < nchannels w * sampwidth w \<Longrightarrow>
   length (frames (w\<lparr>frames := xs\<rparr>)) =
     getnframes (w\<lparr>frames := xs\<rparr>) * (nchannels (w\<lparr>frames := xs\<rparr>) * sampwidth (w\<lparr>frames := xs\<rparr>))"
  by (simp add: getnframes_def)

text \<open>
  Claim C6. Whenever \<^verbatim>\<open>apply_offset\<close> succeeds, the source was a PCM container and
  the destination holds a container with the same channel count, sample width, frame
  rate, compression type and compression name; its data chunk is a whole number of
  frames, which are some frames of silence followed by a tail of the source's frames;
  and no other path of the file system has changed.
\<close>

theorem apply_offset_format:
  assumes ok: "fst (apply_offset inp out d t) = Ok ()"
  shows "(case read_wav t inp of
            None \<Rightarrow> False
          | Some w \<Rightarrow>
             (case read_wav (snd (apply_offset inp out d t)) out of
                None \<Rightarrow> False
              | Some w' \<Rightarrow>
                  same_format w w' \<and>
                  length (frames w') = getnframes w' * (nchannels w' * sampwidth w') \<and>
                  (\<exists>a z. frame_list w' =
                     replicate z (replicate (nchannels w * sampwidth w) 0) @ drop a (frame_list w)))) \<and>
         (\<forall>p. p \<noteq> out \<longrightarrow> lookup (snd (apply_offset inp out d t)) p = lookup t p)"
proof -
  from apply_offset_success [OF ok] obtain w off where
    inp: "lookup t inp = Some (File (Wav w))" and pcm: "pcm_ok w" and
    out: "lookup t out \<noteq> Some Dir" and off: "offset_frames (framerate w) d = Some off" and
    nf: "\<not> (d < 0 \<and> getnframes w \<le> off)"
    by blast
  let ?k = "nchannels w * sampwidth w"
  have pos: "0 < ?k"
    using pcm by (simp add: pcm_ok_def)
  have rd: "read_wav t inp = Some w"
    by (simp add: read_wav_def inp)
  define xs where "xs =
    (if d < 0 then drop (off * ?k) (payload w)
     else if 0 < d then replicate (off * ?k) 0 @ payload w else payload w)"
  have res: "apply_offset inp out d t = (Ok (), write_node out (File (Wav (w\<lparr>frames := xs\<rparr>))) t)"
    using apply_offset_readable [OF inp pcm out off] nf by (simp add: xs_def)
  have len: "\<exists>n. length xs = n * ?k"
  proof (cases "d < 0")
    case True
    then have "length xs = (getnframes w - off) * ?k"
      by (simp add: xs_def length_payload diff_mult_distrib)
    then show ?thesis ..
  next
    case False
    then have "length xs = ((if 0 < d then off else 0) + getnframes w) * ?k"
      by (simp add: xs_def length_payload add_mult_distrib)
    then show ?thesis ..
  qed
  then obtain n where "length xs = n * ?k" ..
  then have whole: "length (frames (w\<lparr>frames := xs\<rparr>)) =
     getnframes (w\<lparr>frames := xs\<rparr>) * (nchannels (w\<lparr>frames := xs\<rparr>) * sampwidth (w\<lparr>frames := xs\<rparr>))"
    using pos by (rule whole_frames_update)
  have fl: "\<exists>a z. frame_list (w\<lparr>frames := xs\<rparr>) = replicate z (replicate ?k 0) @ drop a (frame_list w)"
  proof -
    consider "d < 0" | "0 < d" | "d = 0" by linarith
    then show ?thesis
    proof cases
      case 1
      with nf have le: "off \<le> getnframes w" by simp
      have "frame_list (w\<lparr>frames := xs\<rparr>) = replicate 0 (replicate ?k 0) @ drop off (frame_list w)"
        using 1 by (simp add: xs_def frames_trim [OF pos le])
      then show ?thesis by blast
    next
      case 2
      have "frame_list (w\<lparr>frames := xs\<rparr>) = replicate off (replicate ?k 0) @ drop 0 (frame_list w)"
        using 2 by (simp add: xs_def frames_pad [OF pos])
      then show ?thesis by blast
    next
      case 3
      have "frame_list (w\<lparr>frames := xs\<rparr>) = replicate 0 (replicate ?k 0) @ drop 0 (frame_list w)"
        using 3 by (simp add: xs_def frames_same [OF pos])
      then show ?thesis by blast
    qed
  qed
  have "read_wav (snd (apply_offset inp out d t)) out = Some (w\<lparr>frames := xs\<rparr>)"
    by (simp add: res read_wav_write_node)
  with rd whole fl same_format_update [of w xs] lookup_apply_offset_other [of _ out inp d t]
  show ?thesis
    by simp
qed




theorem apply_offset_format_witness:
  "fst (apply_offset [''a.wav''] [''b.wav''] (- 1)
          [([''a.wav''], File (Wav \<lparr>nchannels = 1, sampwidth = 2, framerate = 1000,
                                      frames = [1, 2, 3, 4, 5, 6]\<rparr>))]) = Ok () \<and>
   lookup (snd (apply_offset [''a.wav''] [''b.wav''] (- 1)
          [([''a.wav''], File (Wav \<lparr>nchannels = 1, sampwidth = 2, framerate = 1000,
                                      frames = [1, 2, 3, 4, 5, 6]\<rparr>))])) [''a.wav'']
     = Some (File (Wav \<lparr>nchannels = 1, sampwidth = 2, framerate = 1000,
                          frames = [1, 2, 3, 4, 5, 6]\<rparr>))"
proof -
  let ?w = "\<lparr>nchannels = 1, sampwidth = 2, framerate = 1000, frames = [1, 2, 3, 4, 5, 6 :: byte]\<rparr>"
  let ?t = "[([''a.wav''], File (Wav ?w))]"
  have h1: "lookup ?t [''a.wav''] = Some (File (Wav ?w))" by (simp add: lookup_def)
  have h2: "pcm_ok ?w" by (simp add: pcm_ok_def)
  have h3: "lookup ?t [''b.wav''] \<noteq> Some Dir" by (simp add: lookup_def)
  have h5: "offset_frames (framerate ?w) (- 1) = Some 1" by (simp add: float_eval)
  have h: "fst (apply_offset [''a.wav''] [''b.wav''] (- 1) ?t) = Ok ()"
    using apply_offset_readable [OF h1 h2 h3 h5] by (simp add: getnframes_def)
  have "\<forall>p. p \<noteq> [''b.wav''] \<longrightarrow>
          lookup (snd (apply_offset [''a.wav''] [''b.wav''] (- 1) ?t)) p = lookup ?t p"
    using apply_offset_format [OF h] by (rule conjunct2)
  then have "lookup (snd (apply_offset [''a.wav''] [''b.wav''] (- 1) ?t)) [''a.wav'']
               = lookup ?t [''a.wav'']"
    by simp
  with h h1 show ?thesis by simp
qed

section \<open>Properties of \<^verbatim>\<open>gather_vgs_files\<close>\<close>











section \<open>Properties of \<^verbatim>\<open>repack_ark\<close>\<close>

text \<open>
  Claim C1. For every workspace directory: when the unpack marker \<^verbatim>\<open>ark.txt\<close> is
  absent, \<^verbatim>\<open>repack_ark\<close> returns normally having printed that the repack is skipped,
  hands no command line to \<^verbatim>\<open>subprocess.run\<close> and leaves the whole tree, the
  destination archive pair included, as it was; the pack command \<^verbatim>\<open>dir2ark\<close> is
  handed over exactly when the marker is present.
\<close>

theorem repack_ark_marker:
  "(\<not> exists (files st) (temp_dir @ [''ark.txt'']) \<longrightarrow>
      fst (repack_ark svc temp_dir hdr_folder arkhelper st) = Ok () \<and>
      files (snd (repack_ark svc temp_dir hdr_folder arkhelper st)) = files st \<and>
      calls (snd (repack_ark svc temp_dir hdr_folder arkhelper st)) = calls st \<and>
      printed (snd (repack_ark svc temp_dir hdr_folder arkhelper st)) =
        printed st @ [Skipping_repack temp_dir]) \<and>
   (exists (files st) (temp_dir @ [''ark.txt'']) \<longrightarrow>
      calls (snd (repack_ark svc temp_dir hdr_folder arkhelper st)) =
        calls st @ [dir2ark arkhelper temp_dir hdr_folder])"
proof (cases "exists (files st) (temp_dir @ [''ark.txt''])")
  case False
  then have "repack_ark svc temp_dir hdr_folder arkhelper st =
      (Ok (), st\<lparr>printed := printed st @ [Skipping_repack temp_dir]\<rparr>)"
    by (simp add: repack_ark_def print_def)
  with False show ?thesis by simp
next
  case True
  have run: "calls (snd (subprocess_run argv f s)) = calls s @ [argv]" for argv f s
    by (simp add: subprocess_run_def Let_def
        split: list.splits arg.splits option.splits node.splits prod.splits)
  from True have "repack_ark svc temp_dir hdr_folder arkhelper st =
      subprocess_run (dir2ark arkhelper temp_dir hdr_folder)
        (\<lambda>t. archiver svc t (dir2ark arkhelper temp_dir hdr_folder))
        (st\<lparr>printed := printed st @ [Repacking_from temp_dir hdr_folder]\<rparr>)"
    by (simp add: repack_ark_def then_run_def print_def)
  with True show ?thesis by (simp add: run)
qed

theorem repack_ark_marker_witness:
  "\<not> exists (files \<lparr>files = [([''w''], Dir), ([''d'', ''MAIN.HDR''], File (Blob [1]))],
                     calls = [], printed = []\<rparr>) ([''w''] @ [''ark.txt'']) \<and>
   repack_ark failing_tools [''w''] [''d''] [''arkhelper.exe'']
     \<lparr>files = [([''w''], Dir), ([''d'', ''MAIN.HDR''], File (Blob [1]))],
      calls = [], printed = []\<rparr>
   = (Ok (), \<lparr>files = [([''w''], Dir), ([''d'', ''MAIN.HDR''], File (Blob [1]))],
              calls = [], printed = [Skipping_repack [''w'']]\<rparr>)"
proof -
  let ?st = "\<lparr>files = [([''w''], Dir), ([''d'', ''MAIN.HDR''], File (Blob [1 :: byte]))],
              calls = [], printed = []\<rparr>"
  let ?r = "repack_ark failing_tools [''w''] [''d''] [''arkhelper.exe''] ?st"
  have absent: "\<not> exists (files ?st) ([''w''] @ [''ark.txt''])"
    by (simp add: exists_def lookup_def)
  from repack_ark_marker [of ?st "[''w'']" failing_tools "[''d'']" "[''arkhelper.exe'']"] absent
  have "fst ?r = Ok () \<and> files (snd ?r) = files ?st \<and> calls (snd ?r) = calls ?st \<and>
        printed (snd ?r) = printed ?st @ [Skipping_repack [''w'']]"
    by blast
  then have "?r = (Ok (), ?st\<lparr>printed := [Skipping_repack [''w'']]\<rparr>)"
    by (cases ?r) (auto simp: state.equality)
  with absent show ?thesis by simp
qed

section \<open>Properties of \<^verbatim>\<open>process_vgs_files\<close>\<close>











lemma preserves_files_unchanged:
  assumes R: "stable R" and "\<And>st. files (snd (f st)) = files st"
    and same: "\<And>s s'. files s' = files s \<Longrightarrow> R s s'"
  shows "preserves R f"
  using assms by (simp add: preserves_def)

lemma files_print: "files (snd (print m st)) = files st"
  by (simp add: print_def)


















lemma temp_paths_distinct:
  "temp_wav p \<noteq> processed_wav p" "temp_wav p \<noteq> temp_vgs p" "processed_wav p \<noteq> temp_vgs p"
  by (simp_all add: temp_wav_def processed_wav_def temp_vgs_def with_name_def)


























section \<open>Failure containment in \<^verbatim>\<open>main\<close>\<close>


















lemmas main_eval =
  main_def read_delay_def extract_any_isos_def extract_one_iso_def process_unit_def
  extract_ark_def repack_ark_def touch_marker_def mkdir_def rmtree_def ark2dir_def dir2ark_def
  sevenz_x_def rglob_name_def glob_children_def parent_def is_below_def ends_with_def
  raise_def process_vgs_files_def gather_vgs_files_def rglob_suffix_def path_rename_def

lemmas step_eval =
  then_run_def print_def try_except_def try_finally_def on_files_def subprocess_run_def
  run_codec_def is_Exception_def unlink_if_exists_def unlink_def os_replace_def exists_def
  lookup_def write_node_def remove_node_def name_def

lemma main_two_units:
  "main failing_tools run_args two_units =
     (Raise (CalledProcessError 1),
      \<lparr>files = files two_units @ [([''app'', ''main'', ''A'', ''temp_out''], Dir)],
       calls = [ark2dir [''app'', ''z_dependencies'', ''arkhelper.exe'']
                  [''app'', ''main'', ''A'', ''MAIN.HDR''] [''app'', ''main'', ''A'', ''temp_out'']],
       printed =
         [Warn_7z_not_found [''app'', ''z_dependencies'', ''7z.exe''],
          Extracting_ark [''app'', ''main'', ''A'', ''MAIN.HDR''] [''app'', ''main'', ''A''],
          Extracting_from [''app'', ''main'', ''A'', ''MAIN.HDR'']
            [''app'', ''main'', ''A'', ''temp_out'']]\<rparr>)"
  by (simp add: main_eval step_eval failing_tools_def run_args_def two_units_def Let_def)



text \<open>
  Claim C2. The claim holds of the specification's pipeline but not of the code: the
  call of \<^verbatim>\<open>extract_ark\<close> in \<^verbatim>\<open>main\<close> is not guarded. With two archive units \<^verbatim>\<open>A\<close> and
  \<^verbatim>\<open>B\<close> and an archive service that exits with status 1, the run ends with
  \<^verbatim>\<open>CalledProcessError\<close> at unit \<^verbatim>\<open>A\<close>: the workspace \<^verbatim>\<open>A/temp_out\<close> is still there, and
  the only command ever issued is the unpack of \<^verbatim>\<open>A\<close>, so unit \<^verbatim>\<open>B\<close> is never reached.
\<close>

theorem main_extract_failure:
  "fst (main failing_tools run_args two_units) = Raise (CalledProcessError 1) \<and>
   lookup (files (snd (main failing_tools run_args two_units)))
     [''app'', ''main'', ''A'', ''temp_out''] = Some Dir \<and>
   calls (snd (main failing_tools run_args two_units)) =
     [ark2dir [''app'', ''z_dependencies'', ''arkhelper.exe'']
        [''app'', ''main'', ''A'', ''MAIN.HDR''] [''app'', ''main'', ''A'', ''temp_out'']] \<and>
   Done \<notin> set (printed (snd (main failing_tools run_args two_units)))"
  unfolding main_two_units by (simp add: two_units_def lookup_def)




end
